theory Spec2Isabelle
  imports Main
begin

section \<open>Go values used by the commands\<close>

text \<open>
  A Go string is a sequence of bytes, so it is a \<open>string\<close> here (a list of 8-bit
  characters); the micro sign of the canonical threshold messages is its two UTF-8 bytes.

  A Go \<open>error\<close> is either made by \<open>errors.New\<close> (an \<open>ErrorString\<close>, whose text is
  its argument) or is the \<open>*strconv.NumError\<close> that \<open>strconv.ParseInt\<close> returns (the
  function name, the input and the underlying error). Errors of the collaborators are
  values of the same type.
\<close>

datatype error =
    ErrorString string
  | NumError string string error

definition ErrSyntax :: error where
  "ErrSyntax = ErrorString ''invalid syntax''"

definition ErrRange :: error where
  "ErrRange = ErrorString ''value out of range''"

text \<open>
  \<open>err.Error()\<close>. The text of a \<open>NumError\<close> quotes the input with
  \<open>strconv.Quote\<close>, a function of the Go library that is taken as the parameter \<open>q\<close>.
\<close>

fun Error :: "(string \<Rightarrow> string) \<Rightarrow> error \<Rightarrow> string" where
  "Error q (ErrorString s) = s"
| "Error q (NumError f n e) = ''strconv.'' @ f @ '': parsing '' @ q n @ '': '' @ Error q e"

text \<open>
  \<open>strings.HasPrefix\<close> and \<open>strings.Contains\<close>: \<open>substr\<close> occurs in \<open>s\<close> when it
  is a prefix of \<open>s\<close> or occurs in \<open>s\<close> without its first byte.
\<close>

definition HasPrefix :: "string \<Rightarrow> string \<Rightarrow> bool" where
  "HasPrefix s p = (take (length p) s = p)"

fun Contains :: "string \<Rightarrow> string \<Rightarrow> bool" where
  "Contains [] substr = (substr = [])"
| "Contains (c # s) substr = (HasPrefix (c # s) substr \<or> Contains s substr)"

text \<open>
  \<open>strconv.ParseInt(s, 10, 64)\<close>. \<open>ParseUint\<close> reads the digits from the left into an
  unsigned 64-bit accumulator \<open>n\<close>: a byte that is not a decimal digit is a syntax error,
  and a range error is returned as soon as \<open>n * 10\<close> or \<open>n * 10 + d\<close> would not fit
  (the Go code tests \<open>n >= cutoff\<close> and then the wrap-around of the addition; on
  unbounded naturals the second test is \<open>n * 10 + d > maxUint64\<close>).
\<close>

definition maxUint64 :: nat where
  "maxUint64 = 2 ^ 64 - 1"

definition isDigit :: "char \<Rightarrow> bool" where
  "isDigit c = (48 \<le> (of_char c :: nat) \<and> (of_char c :: nat) \<le> 57)"

fun parseDigits :: "nat \<Rightarrow> string \<Rightarrow> error + nat" where
  "parseDigits n [] = Inr n"
| "parseDigits n (c # cs) =
     (if \<not> isDigit c then Inl ErrSyntax
      else if n \<ge> maxUint64 div 10 + 1 then Inl ErrRange
      else if n * 10 + (of_char c - 48) > maxUint64 then Inl ErrRange
      else parseDigits (n * 10 + (of_char c - 48)) cs)"

definition ParseUint :: "string \<Rightarrow> error + nat" where
  "ParseUint s = (if s = [] then Inl ErrSyntax else parseDigits 0 s)"

text \<open>
  \<open>ParseInt\<close> picks off a leading sign, converts the rest with \<open>ParseUint\<close> and checks
  the signed range: the cutoff is \<open>2 ^ 63\<close>. Every error it returns is a \<open>NumError\<close>
  naming \<open>ParseInt\<close> and the whole input.
\<close>

definition ParseInt :: "string \<Rightarrow> error + int" where
  "ParseInt s0 =
     (if s0 = [] then Inl (NumError ''ParseInt'' s0 ErrSyntax)
      else
        let neg = (hd s0 = CHR ''-'');
            s = (if hd s0 = CHR ''+'' \<or> hd s0 = CHR ''-'' then tl s0 else s0)
        in case ParseUint s of
             Inl e \<Rightarrow>
               if e \<noteq> ErrRange then Inl (NumError ''ParseInt'' s0 e)
               else Inl (NumError ''ParseInt'' s0 ErrRange)
           | Inr un \<Rightarrow>
               if \<not> neg \<and> un \<ge> 2 ^ 63 then Inl (NumError ''ParseInt'' s0 ErrRange)
               else if neg \<and> un > 2 ^ 63 then Inl (NumError ''ParseInt'' s0 ErrRange)
               else Inr (if neg then - int un else int un))"

section \<open>Configuration, requests and responses\<close>

text \<open>
  The fields of \<open>config.Config\<close> that the commands read or write:
  \<open>cfg.Identity.{PrivKey, Mnemonic, EncryptedPrivKey, EncryptedMnemonic}\<close> and
  \<open>cfg.UI.Wallet.Initialized\<close>. Every other field of the configuration is in \<open>Other\<close>.
\<close>

record identity =
  PrivKey :: string
  Mnemonic :: string
  EncryptedPrivKey :: string
  EncryptedMnemonic :: string

record wallet_ui =
  Initialized :: bool

record ui =
  Wallet :: wallet_ui

record 'o config =
  Identity :: identity
  UI :: ui
  Other :: 'o

text \<open>The node: only \<open>IsDaemon\<close> is read here; its repository is a collaborator.\<close>

record node =
  IsDaemon :: bool

text \<open>
  A request carries its options, a map from option names to values of dynamic type, and
  its positional arguments.
\<close>

datatype optval = BoolOpt bool | StringOpt string

record request =
  Options :: "string \<rightharpoonup> optval"
  Arguments :: "string list"

definition asyncOptionName :: string where
  "asyncOptionName = ''async''"

definition passwordOptionName :: string where
  "passwordOptionName = ''password''"

definition postPathModificationName :: string where
  "postPathModificationName = ''post-path-modification''"

text \<open>The values given to \<open>cmds.EmitOnce\<close>.\<close>

datatype response =
    MessageOutput string
  | Keys string string
  | TransferResult bool string

text \<open>What \<open>wallet.TransferBTT\<close> returns on success.\<close>

record transfer_ret =
  Result :: bool
  TxId :: string

text \<open>
  An \<open>exec.Cmd\<close>: the program, its arguments, and the environment of the child, where
  \<open>None\<close> is Go's \<open>nil\<close> (the child inherits the environment of the parent).
  \<open>exec.Command\<close> looks a name without a path separator up in \<open>PATH\<close>; here
  \<open>Path\<close> is the name as given, and a failed lookup is an error of \<open>Start\<close>.
\<close>

record cmd =
  Path :: string
  Args :: "string list"
  Env :: "string list option"

definition Command :: "string \<Rightarrow> string list \<Rightarrow> cmd" where
  "Command name arg = \<lparr>Path = name, Args = name # arg, Env = None\<rparr>"

section \<open>Collaborators and the trace of their calls\<close>

text \<open>
  Every call of a command to a collaborator (the node and its repository, the wallet
  package, the response emitter, the storage-path package, the operating system) is
  recorded, with its arguments, at the end of a trace.
\<close>

datatype 'o call =
    CallGetNode
  | CallConfig node
  | CallSetConfig node "'o config"
  | CallEncryptWithAES string string
  | CallDecryptWithAES string string
  | CallWalletDeposit "'o config" node int bool bool
  | CallWalletWithdraw "'o config" node int
  | CallTransferBTT node "'o config" string int
  | CallEmitOnce response
  | CallMoveFolder
  | CallWriteProperties
  | CallStart cmd
  | CallExit int

text \<open>
  The collaborators are parameters: none of them is in the source files. What each one
  answers may depend on its arguments and on the calls made so far. \<open>Excutable\<close>,
  \<open>StorePath\<close> and \<open>OriginPath\<close> are package-level variables of the storage-path
  package and \<open>Environ\<close> is \<open>os.Environ\<close>: they are read, not called, so reading them
  leaves no entry in the trace.
\<close>

record 'o ext =
  GetNode :: "'o call list \<Rightarrow> error + node"
  Config :: "'o call list \<Rightarrow> node \<Rightarrow> error + 'o config"
  SetConfig :: "'o call list \<Rightarrow> node \<Rightarrow> 'o config \<Rightarrow> error option"
  EncryptWithAES :: "'o call list \<Rightarrow> string \<Rightarrow> string \<Rightarrow> error + string"
  DecryptWithAES :: "'o call list \<Rightarrow> string \<Rightarrow> string \<Rightarrow> error + string"
  WalletDeposit :: "'o call list \<Rightarrow> 'o config \<Rightarrow> node \<Rightarrow> int \<Rightarrow> bool \<Rightarrow> bool \<Rightarrow> error option"
  WalletWithdraw :: "'o call list \<Rightarrow> 'o config \<Rightarrow> node \<Rightarrow> int \<Rightarrow> error option"
  TransferBTT :: "'o call list \<Rightarrow> node \<Rightarrow> 'o config \<Rightarrow> string \<Rightarrow> int \<Rightarrow> error + transfer_ret"
  EmitOnce :: "'o call list \<Rightarrow> response \<Rightarrow> error option"
  MoveFolder :: "'o call list \<Rightarrow> error option"
  WriteProperties :: "'o call list \<Rightarrow> error option"
  Start :: "'o call list \<Rightarrow> cmd \<Rightarrow> error option"
  Excutable :: "'o call list \<Rightarrow> string"
  StorePath :: "'o call list \<Rightarrow> string"
  OriginPath :: "'o call list \<Rightarrow> string"
  Environ :: "'o call list \<Rightarrow> string list"
  Quote :: "string \<Rightarrow> string"

text \<open>
  How the run of a command ends: its \<open>Run\<close> function returns an error or \<open>nil\<close>, or a
  failed type assertion or an index out of range panics, or \<open>os.Exit\<close> ends the process.
\<close>

datatype outcome =
    Returns "error option"
  | Panics
  | Exits int

text \<open>
  A step of a command takes the trace so far and gives the new trace and either the
  outcome that ends the run (\<open>Inl\<close>) or a value to go on with (\<open>Inr\<close>).
\<close>

type_synonym ('o, 'a) act = "'o call list \<Rightarrow> 'o call list \<times> (outcome + 'a)"

definition ret :: "'a \<Rightarrow> ('o, 'a) act" where
  "ret x = (\<lambda>t. (t, Inr x))"

definition stop :: "outcome \<Rightarrow> ('o, 'a) act" where
  "stop out = (\<lambda>t. (t, Inl out))"

definition bind :: "('o, 'a) act \<Rightarrow> ('a \<Rightarrow> ('o, 'b) act) \<Rightarrow> ('o, 'b) act" where
  "bind m f = (\<lambda>t. case m t of (t', Inl out) \<Rightarrow> (t', Inl out) | (t', Inr x) \<Rightarrow> f x t')"

text \<open>A call: the answer is the collaborator's for the trace before the call.\<close>

definition call :: "'o call \<Rightarrow> ('o call list \<Rightarrow> 'a) \<Rightarrow> ('o, 'a) act" where
  "call c answer = (\<lambda>t. (t @ [c], Inr (answer t)))"

text \<open>Reading a package-level variable or the process environment.\<close>

definition read :: "('o call list \<Rightarrow> 'a) \<Rightarrow> ('o, 'a) act" where
  "read var = (\<lambda>t. (t, Inr (var t)))"

text \<open>\<open>x, err := f(); if err != nil { return err }\<close>\<close>

definition tryValue :: "('o, error + 'a) act \<Rightarrow> ('o, 'a) act" where
  "tryValue m = bind m (\<lambda>r. case r of Inl err \<Rightarrow> stop (Returns (Some err)) | Inr x \<Rightarrow> ret x)"

text \<open>\<open>if err := f(); err != nil { return err }\<close>\<close>

definition tryError :: "('o, error option) act \<Rightarrow> ('o, unit) act" where
  "tryError m = bind m (\<lambda>r. case r of Some err \<Rightarrow> stop (Returns (Some err)) | None \<Rightarrow> ret ())"

text \<open>\<open>req.Arguments[i]\<close> panics when the index is out of range.\<close>

definition index :: "'a list \<Rightarrow> nat \<Rightarrow> ('o, 'a) act" where
  "index xs i = (if i < length xs then ret (xs ! i) else stop Panics)"

text \<open>\<open>os.Exit(code)\<close> ends the process: nothing after it runs.\<close>

definition Exit :: "int \<Rightarrow> ('o, 'a) act" where
  "Exit code = (\<lambda>t. (t @ [CallExit code], Inl (Exits code)))"

text \<open>The run of a whole command, from a trace to the trace at its end and its outcome.\<close>

definition run :: "('o, error option) act \<Rightarrow> 'o call list \<Rightarrow> 'o call list \<times> outcome" where
  "run m t = (case m t of (t', Inl out) \<Rightarrow> (t', out) | (t', Inr err) \<Rightarrow> (t', Returns err))"

section \<open>The credential gate\<close>

definition MissingPassword :: error where
  "MissingPassword = ErrorString
     (''Password required, please use '-p <password>' to specify the password. '' @ [CHR 0x0A] @
      ''Try 'btfs wallet password --help' and assign a password if password is not set.'')"

definition IncorrectPassword :: error where
  "IncorrectPassword = ErrorString ''incorrect password''"

text \<open>
  \<open>validatePassword\<close>: the password is the string option of the request, the empty
  string when the option is absent or not a string (the two-valued type assertion).
\<close>

definition validatePassword :: "'o ext \<Rightarrow> 'o config \<Rightarrow> request \<Rightarrow> ('o, error option) act" where
  "validatePassword e cfg req =
     (let password = (case Options req passwordOptionName of Some (StringOpt s) \<Rightarrow> s | _ \<Rightarrow> '''')
      in if password = '''' then ret (Some MissingPassword)
         else
           bind (call (CallDecryptWithAES password (EncryptedPrivKey (Identity cfg)))
                      (\<lambda>t. DecryptWithAES e t password (EncryptedPrivKey (Identity cfg))))
             (\<lambda>r. case r of
                     Inl err \<Rightarrow> ret (Some IncorrectPassword)
                   | Inr privK \<Rightarrow>
                       if PrivKey (Identity cfg) \<noteq> privK then ret (Some IncorrectPassword)
                       else ret None))"

section \<open>The wallet commands\<close>

text \<open>
  \<open>walletDepositCmd\<close>. The asynchronous flag is read with the two-valued type assertion
  (false when absent). The node is fetched a second time for \<open>IsDaemon\<close> (the log
  entry written when that fails is not part of the trace). An error of
  \<open>wallet.WalletDeposit\<close> whose text contains the threshold phrase is replaced by a
  new error with the canonical text.
\<close>

definition depositThreshold :: error where
  "depositThreshold = ErrorString
     (''Please deposit at least 10,000,000'' @ [CHR 0xC2, CHR 0xB5] @ ''BTT(=10BTT)'')"

definition walletDepositCmd :: "'o ext \<Rightarrow> request \<Rightarrow> 'o call list \<Rightarrow> 'o call list \<times> outcome" where
  "walletDepositCmd e req = run (
     bind (tryValue (call CallGetNode (GetNode e))) (\<lambda>n.
     bind (tryValue (call (CallConfig n) (\<lambda>t. Config e t n))) (\<lambda>cfg.
     bind (tryError (validatePassword e cfg req)) (\<lambda>_.
     let async = (case Options req asyncOptionName of Some (BoolOpt b) \<Rightarrow> b | _ \<Rightarrow> False) in
     bind (index (Arguments req) 0) (\<lambda>arg.
     bind (tryValue (ret (ParseInt arg))) (\<lambda>amount.
     bind (tryValue (call CallGetNode (GetNode e))) (\<lambda>currentNode.
     let runDaemon = IsDaemon currentNode in
     bind (call (CallWalletDeposit cfg n amount runDaemon async)
                (\<lambda>t. WalletDeposit e t cfg n amount runDaemon async)) (\<lambda>err.
     case err of
       Some err \<Rightarrow>
         if Contains (Error (Quote e) err) ''Please deposit at least''
         then ret (Some depositThreshold)
         else ret (Some err)
     | None \<Rightarrow>
         let s = (if \<not> runDaemon then ''BTFS wallet deposit Done.''
                  else ''BTFS wallet deposit submitted. Please wait one minute for the transaction to confirm.'')
         in call (CallEmitOnce (MessageOutput s)) (\<lambda>t. EmitOnce e t (MessageOutput s))))))))))"

text \<open>\<open>walletWithdrawCmd\<close>\<close>

definition withdrawThreshold :: error where
  "withdrawThreshold = ErrorString
     (''Please withdraw at least 1,000,000,000'' @ [CHR 0xC2, CHR 0xB5] @ ''BTT(=1000BTT)'')"

definition walletWithdrawCmd :: "'o ext \<Rightarrow> request \<Rightarrow> 'o call list \<Rightarrow> 'o call list \<times> outcome" where
  "walletWithdrawCmd e req = run (
     bind (tryValue (call CallGetNode (GetNode e))) (\<lambda>n.
     bind (tryValue (call (CallConfig n) (\<lambda>t. Config e t n))) (\<lambda>cfg.
     bind (tryError (validatePassword e cfg req)) (\<lambda>_.
     bind (index (Arguments req) 0) (\<lambda>arg.
     bind (tryValue (ret (ParseInt arg))) (\<lambda>amount.
     bind (call (CallWalletWithdraw cfg n amount) (\<lambda>t. WalletWithdraw e t cfg n amount)) (\<lambda>err.
     case err of
       Some err \<Rightarrow>
         if Contains (Error (Quote e) err) ''Please withdraw at least''
         then ret (Some withdrawThreshold)
         else ret (Some err)
     | None \<Rightarrow>
         let s = ''BTFS wallet withdraw submitted. Please wait one minute for the transaction to confirm.''
         in call (CallEmitOnce (MessageOutput s)) (\<lambda>t. EmitOnce e t (MessageOutput s)))))))))"

text \<open>
  \<open>walletTransferCmd\<close>: the amount is the second argument, the destination the first.
\<close>

definition walletTransferCmd :: "'o ext \<Rightarrow> request \<Rightarrow> 'o call list \<Rightarrow> 'o call list \<times> outcome" where
  "walletTransferCmd e req = run (
     bind (tryValue (call CallGetNode (GetNode e))) (\<lambda>n.
     bind (tryValue (call (CallConfig n) (\<lambda>t. Config e t n))) (\<lambda>cfg.
     bind (tryError (validatePassword e cfg req)) (\<lambda>_.
     bind (index (Arguments req) 1) (\<lambda>arg.
     bind (tryValue (ret (ParseInt arg))) (\<lambda>amount.
     bind (index (Arguments req) 0) (\<lambda>to.
     bind (tryValue (call (CallTransferBTT n cfg to amount) (\<lambda>t. TransferBTT e t n cfg to amount))) (\<lambda>r.
     let msg = ''transaction '' @ TxId r @ '' sent''
     in call (CallEmitOnce (TransferResult (Result r) msg))
             (\<lambda>t. EmitOnce e t (TransferResult (Result r) msg))))))))))"

text \<open>
  \<open>walletPasswordCmd\<close>: the password is the first argument. The mnemonic is encrypted
  before the private key, then the two ciphertexts are stored in the configuration, which
  is given to \<open>SetConfig\<close>.
\<close>

definition AlreadyInitialized :: error where
  "AlreadyInitialized = ErrorString ''Already init, cannot set password again.''"

definition walletPasswordCmd :: "'o ext \<Rightarrow> request \<Rightarrow> 'o call list \<Rightarrow> 'o call list \<times> outcome" where
  "walletPasswordCmd e req = run (
     bind (tryValue (call CallGetNode (GetNode e))) (\<lambda>n.
     bind (tryValue (call (CallConfig n) (\<lambda>t. Config e t n))) (\<lambda>cfg.
     if Initialized (Wallet (UI cfg)) then stop (Returns (Some AlreadyInitialized))
     else
       bind (index (Arguments req) 0) (\<lambda>password.
       bind (tryValue (call (CallEncryptWithAES password (Mnemonic (Identity cfg)))
                            (\<lambda>t. EncryptWithAES e t password (Mnemonic (Identity cfg))))) (\<lambda>cipherMnemonic.
       bind (tryValue (call (CallEncryptWithAES password (PrivKey (Identity cfg)))
                            (\<lambda>t. EncryptWithAES e t password (PrivKey (Identity cfg))))) (\<lambda>cipherPrivKey.
       let cfg1 = cfg\<lparr>Identity := (Identity cfg)\<lparr>EncryptedMnemonic := cipherMnemonic\<rparr>\<rparr>;
           cfg2 = cfg1\<lparr>Identity := (Identity cfg1)\<lparr>EncryptedPrivKey := cipherPrivKey\<rparr>\<rparr>
       in
       bind (tryError (call (CallSetConfig n cfg2) (\<lambda>t. SetConfig e t n cfg2))) (\<lambda>_.
       call (CallEmitOnce (MessageOutput ''Password set.''))
            (\<lambda>t. EmitOnce e t (MessageOutput ''Password set.'')))))))))"

text \<open>\<open>walletCheckPasswordCmd\<close>\<close>

definition walletCheckPasswordCmd :: "'o ext \<Rightarrow> request \<Rightarrow> 'o call list \<Rightarrow> 'o call list \<times> outcome" where
  "walletCheckPasswordCmd e req = run (
     bind (tryValue (call CallGetNode (GetNode e))) (\<lambda>n.
     bind (tryValue (call (CallConfig n) (\<lambda>t. Config e t n))) (\<lambda>cfg.
     bind (tryError (validatePassword e cfg req)) (\<lambda>_.
     call (CallEmitOnce (MessageOutput ''Password is correct.''))
          (\<lambda>t. EmitOnce e t (MessageOutput ''Password is correct.''))))))"

text \<open>
  \<open>walletKeysCmd\<close>: the keys emitted are the plaintext pair while the wallet is not
  initialized and the encrypted pair afterwards.
\<close>

definition walletKeysCmd :: "'o ext \<Rightarrow> request \<Rightarrow> 'o call list \<Rightarrow> 'o call list \<times> outcome" where
  "walletKeysCmd e req = run (
     bind (tryValue (call CallGetNode (GetNode e))) (\<lambda>n.
     bind (tryValue (call (CallConfig n) (\<lambda>t. Config e t n))) (\<lambda>cfg.
     let keys = (if \<not> Initialized (Wallet (UI cfg))
                 then Keys (PrivKey (Identity cfg)) (Mnemonic (Identity cfg))
                 else Keys (EncryptedPrivKey (Identity cfg)) (EncryptedMnemonic (Identity cfg)))
     in call (CallEmitOnce keys) (\<lambda>t. EmitOnce e t keys))))"

section \<open>The restart command\<close>

text \<open>
  \<open>restartCmd\<close>. The flag is read with the one-valued type assertion, which panics when
  the option is absent or not a boolean. When the flag is set and both paths are
  non-empty, the folder is moved, the properties are written and the child gets the
  environment of the parent followed by \<open>BTFS_PATH\<close>. The child is started, and the
  process exits with code 0.
\<close>

definition assertBool :: "optval option \<Rightarrow> ('o, bool) act" where
  "assertBool v = (case v of Some (BoolOpt b) \<Rightarrow> ret b | _ \<Rightarrow> stop Panics)"

definition restartCmd :: "'o ext \<Rightarrow> request \<Rightarrow> 'o call list \<Rightarrow> 'o call list \<times> outcome" where
  "restartCmd e req = run (
     bind (read (Excutable e)) (\<lambda>exe.
     let daemonCmd = Command exe [''daemon''] in
     bind (assertBool (Options req postPathModificationName)) (\<lambda>flag.
     bind (read (StorePath e)) (\<lambda>storePath.
     bind (read (OriginPath e)) (\<lambda>originPath.
     bind (if flag \<and> storePath \<noteq> '''' \<and> originPath \<noteq> '''' then
             bind (tryError (call CallMoveFolder (MoveFolder e))) (\<lambda>_.
             bind (tryError (call CallWriteProperties (WriteProperties e))) (\<lambda>_.
             bind (read (Environ e)) (\<lambda>environ.
             bind (read (StorePath e)) (\<lambda>storePath.
             ret (daemonCmd\<lparr>Env := Some (environ @ [''BTFS_PATH='' @ storePath])\<rparr>)))))
           else ret daemonCmd) (\<lambda>daemonCmd.
     bind (tryError (call (CallStart daemonCmd) (\<lambda>t. Start e t daemonCmd))) (\<lambda>_.
     Exit 0)))))))"

section \<open>A sample node for closed instances\<close>

text \<open>
  Concrete collaborators on which the commands can be evaluated. The cipher is a toy one:
  the ciphertext is the password, a bar and the message. The repository answers with the
  configuration that was stored last, and with the configuration it is created with before
  the first store. \<open>freshCfg\<close> is a wallet without a password, \<open>lockedCfg\<close> one
  whose keys are encrypted under the password \<open>pw\<close>.
\<close>

definition freshCfg :: "unit config" where
  "freshCfg =
     \<lparr>Identity = \<lparr>PrivKey = ''k'', Mnemonic = ''m'',
                  EncryptedPrivKey = '''', EncryptedMnemonic = ''''\<rparr>,
      UI = \<lparr>Wallet = \<lparr>Initialized = False\<rparr>\<rparr>,
      Other = ()\<rparr>"

definition lockedCfg :: "unit config" where
  "lockedCfg =
     \<lparr>Identity = \<lparr>PrivKey = ''k'', Mnemonic = ''m'',
                  EncryptedPrivKey = ''pw|k'', EncryptedMnemonic = ''pw|m''\<rparr>,
      UI = \<lparr>Wallet = \<lparr>Initialized = True\<rparr>\<rparr>,
      Other = ()\<rparr>"

definition sampleNode :: node where
  "sampleNode = \<lparr>IsDaemon = True\<rparr>"

fun lastSaved :: "'o config \<Rightarrow> 'o call list \<Rightarrow> 'o config" where
  "lastSaved c [] = c"
| "lastSaved c (CallSetConfig n c' # t) = lastSaved c' t"
| "lastSaved c (x # t) = lastSaved c t"

definition toyEncrypt :: "string \<Rightarrow> string \<Rightarrow> error + string" where
  "toyEncrypt key message = Inr (key @ ''|'' @ message)"

definition toyDecrypt :: "string \<Rightarrow> string \<Rightarrow> error + string" where
  "toyDecrypt key cipher =
     (if take (length key + 1) cipher = key @ ''|'' then Inr (drop (length key + 1) cipher)
      else Inl (ErrorString ''toy cipher: wrong key''))"

definition sampleExt :: "unit config \<Rightarrow> unit ext" where
  "sampleExt cfg0 =
     \<lparr>GetNode = (\<lambda>t. Inr sampleNode),
      Config = (\<lambda>t n. Inr (lastSaved cfg0 t)),
      SetConfig = (\<lambda>t n c. None),
      EncryptWithAES = (\<lambda>t. toyEncrypt),
      DecryptWithAES = (\<lambda>t. toyDecrypt),
      WalletDeposit = (\<lambda>t c n a d s. Some (ErrorString ''ledger: Please deposit at least 10000000'')),
      WalletWithdraw = (\<lambda>t c n a. Some (ErrorString ''ledger: Please withdraw at least 1000000000'')),
      TransferBTT = (\<lambda>t n c to a. Inr \<lparr>Result = True, TxId = ''tx1''\<rparr>),
      EmitOnce = (\<lambda>t r. None),
      MoveFolder = (\<lambda>t. None),
      WriteProperties = (\<lambda>t. None),
      Start = (\<lambda>t c. None),
      Excutable = (\<lambda>t. ''/usr/local/bin/btfs''),
      StorePath = (\<lambda>t. ''/data/new''),
      OriginPath = (\<lambda>t. ''/data/old''),
      Environ = (\<lambda>t. [''HOME=/root'']),
      Quote = (\<lambda>s. [CHR 0x22] @ s @ [CHR 0x22])\<rparr>"

definition sampleReq :: "(string \<times> optval) list \<Rightarrow> string list \<Rightarrow> request" where
  "sampleReq opts args = \<lparr>Options = map_of opts, Arguments = args\<rparr>"

section \<open>Auxiliary facts\<close>

lemmas act_defs = ret_def stop_def bind_def call_def read_def tryValue_def tryError_def
  index_def Exit_def run_def

lemmas sample_defs = sampleExt_def freshCfg_def lockedCfg_def sampleNode_def sampleReq_def
  toyEncrypt_def toyDecrypt_def passwordOptionName_def asyncOptionName_def
  postPathModificationName_def

lemmas ParseInt_defs = ParseInt_def ParseUint_def isDigit_def maxUint64_def ErrSyntax_def
  ErrRange_def Let_def

text \<open>
  The gate leaves the trace as it is when the password is empty, and otherwise adds the
  one decryption call; it never ends the run by itself.
\<close>

lemma validatePassword_eq:
  "validatePassword e cfg req t =
     (let password = (case Options req passwordOptionName of Some (StringOpt s) \<Rightarrow> s | _ \<Rightarrow> '''')
      in if password = '''' then (t, Inr (Some MissingPassword))
         else (t @ [CallDecryptWithAES password (EncryptedPrivKey (Identity cfg))],
               Inr (if DecryptWithAES e t password (EncryptedPrivKey (Identity cfg))
                        = Inr (PrivKey (Identity cfg))
                    then None else Some IncorrectPassword)))"
  by (auto simp: validatePassword_def act_defs Let_def split: sum.splits)

lemma validatePassword_Arguments:
  "validatePassword e cfg (req\<lparr>Arguments := args\<rparr>) = validatePassword e cfg req"
  by (simp add: validatePassword_def)

lemma validatePassword_trace:
  assumes "validatePassword e cfg req t = (t', r)"
  shows "t' = t \<or> (\<exists>pw. t' = t @ [CallDecryptWithAES pw (EncryptedPrivKey (Identity cfg))])"
  using assms by (auto simp: validatePassword_eq Let_def split: if_splits)

text \<open>\<open>strings.Contains\<close> is the occurrence of a contiguous substring.\<close>

lemma HasPrefix_iff: "HasPrefix s p \<longleftrightarrow> (\<exists>ss. s = p @ ss)"
  unfolding HasPrefix_def by (metis append_eq_conv_conj append_take_drop_id)

lemma Contains_iff: "Contains s sub \<longleftrightarrow> (\<exists>ps ss. s = ps @ sub @ ss)"
proof (induction s)
  case Nil
  then show ?case by auto
next
  case (Cons c s)
  have "(\<exists>ps ss. c # s = ps @ sub @ ss) \<longleftrightarrow> (\<exists>ss. c # s = sub @ ss) \<or> (\<exists>ps ss. s = ps @ sub @ ss)"
    (is "?L \<longleftrightarrow> ?A \<or> ?B")
  proof
    assume ?L
    then obtain ps ss where eq: "c # s = ps @ sub @ ss" by blast
    show "?A \<or> ?B"
    proof (cases ps)
      case Nil
      with eq show ?thesis by auto
    next
      case (Cons p ps')
      with eq have "s = ps' @ sub @ ss" by simp
      then show ?thesis by blast
    qed
  next
    assume "?A \<or> ?B"
    then show ?L
    proof
      assume ?A
      then obtain ss where "c # s = [] @ sub @ ss" by auto
      then show ?L by blast
    next
      assume ?B
      then obtain ps ss where "s = ps @ sub @ ss" by blast
      then have "c # s = (c # ps) @ sub @ ss" by simp
      then show ?L by blast
    qed
  qed
  with Cons.IH show ?case by (simp add: HasPrefix_iff)
qed

text \<open>Every error of \<open>ParseInt\<close> is a \<open>NumError\<close> that names it and its input.\<close>

lemma ParseInt_error:
  assumes "ParseInt s = Inl err"
  shows "\<exists>cause. err = NumError ''ParseInt'' s cause"
  using assms by (auto simp: ParseInt_def Let_def split: if_splits sum.splits)

text \<open>The toy cipher: decryption undoes encryption, and only the key opens a ciphertext.\<close>

lemma toyDecrypt_toyEncrypt:
  "toyEncrypt p m = Inr c \<Longrightarrow> toyDecrypt p c = Inr m"
  by (auto simp: toyEncrypt_def toyDecrypt_def)

lemma toyDecrypt_only_key:
  assumes "toyDecrypt p ''pw|k'' = Inr ''k''"
  shows "p = ''pw''"
proof -
  from assms have tk: "take (length p + 1) ''pw|k'' = p @ ''|''"
    and dr: "drop (length p + 1) ''pw|k'' = ''k''"
    by (auto simp: toyDecrypt_def split: if_splits)
  from dr have "length (drop (length p + 1) ''pw|k'') = 1" by simp
  then have "length p = 2" by simp
  with tk show ?thesis by simp
qed

section \<open>Properties of the credential gate\<close>

text \<open>
  C5. Whatever the stored ciphertext and the reference key are, the gate called with an
  empty password (the option is absent, is not a string, or is the empty string) returns
  the missing-password error, whose text tells the user to assign a password; the trace is
  unchanged, so no decryption was attempted.
\<close>

theorem validatePassword_empty_password:
  assumes "(case Options req passwordOptionName of Some (StringOpt s) \<Rightarrow> s | _ \<Rightarrow> '''') = ''''"
  shows "validatePassword e cfg req t = (t, Inr (Some MissingPassword))
         \<and> Contains (Error q MissingPassword) ''assign a password if password is not set''"
  using assms by (simp add: validatePassword_eq MissingPassword_def HasPrefix_def)

theorem validatePassword_empty_password_witness:
  "(case Options (sampleReq [(''password'', StringOpt '''')] []) passwordOptionName of
      Some (StringOpt s) \<Rightarrow> s | _ \<Rightarrow> '''') = ''''
   \<and> validatePassword (sampleExt lockedCfg) lockedCfg
        (sampleReq [(''password'', StringOpt '''')] []) []
       = ([], Inr (Some MissingPassword))"
  using validatePassword_empty_password
    [of "sampleReq [(''password'', StringOpt '''')] []" "sampleExt lockedCfg" lockedCfg "[]"]
  by (simp add: sample_defs)

text \<open>
  C4, as stated, fails when the password that encrypted the key is the empty string: the
  ciphertext decrypts to the reference key under it, and the gate still rejects it.
\<close>

theorem validatePassword_roundtrip_counterexample:
  "EncryptWithAES (sampleExt freshCfg) [] '''' ''k'' = Inr ''|k''
   \<and> DecryptWithAES (sampleExt freshCfg) [] '''' ''|k'' = Inr ''k''
   \<and> validatePassword (sampleExt freshCfg)
        (freshCfg\<lparr>Identity := (Identity freshCfg)\<lparr>EncryptedPrivKey := ''|k''\<rparr>\<rparr>)
        (sampleReq [(''password'', StringOpt '''')] []) []
       = ([], Inr (Some MissingPassword))"
  by (simp add: validatePassword_eq sample_defs)

text \<open>
  C4, amended. Let the stored ciphertext \<open>C\<close> be the encryption of the reference key
  \<open>K\<close> with a non-empty password \<open>P\<close>, where decryption undoes encryption and no
  other password decrypts \<open>C\<close> to \<open>K\<close>. Then the gate accepts \<open>P\<close>, and it rejects
  every non-empty password different from \<open>P\<close> with the incorrect-password error. In both
  cases the gate makes exactly the one decryption call.
\<close>

theorem validatePassword_roundtrip:
  assumes "EncryptWithAES e t0 P K = Inr C"
    and "\<forall>p m c. EncryptWithAES e t0 p m = Inr c \<longrightarrow> DecryptWithAES e t p c = Inr m"
    and "\<forall>p. p \<noteq> P \<longrightarrow> DecryptWithAES e t p C \<noteq> Inr K"
    and "P \<noteq> ''''"
    and "EncryptedPrivKey (Identity cfg) = C" and "PrivKey (Identity cfg) = K"
  shows "validatePassword e cfg (req\<lparr>Options := (Options req)(passwordOptionName \<mapsto> StringOpt P)\<rparr>) t
           = (t @ [CallDecryptWithAES P C], Inr None)
         \<and> (\<forall>P'. P' \<noteq> '''' \<and> P' \<noteq> P \<longrightarrow>
               validatePassword e cfg (req\<lparr>Options := (Options req)(passwordOptionName \<mapsto> StringOpt P')\<rparr>) t
                 = (t @ [CallDecryptWithAES P' C], Inr (Some IncorrectPassword)))"
proof -
  from assms(1,2) have "DecryptWithAES e t P C = Inr K" by blast
  with assms(3-) show ?thesis by (simp add: validatePassword_eq)
qed

theorem validatePassword_roundtrip_witness:
  "EncryptWithAES (sampleExt lockedCfg) [] ''pw'' ''k'' = Inr ''pw|k''
   \<and> DecryptWithAES (sampleExt lockedCfg) [] ''pw'' ''pw|k'' = Inr ''k''
   \<and> DecryptWithAES (sampleExt lockedCfg) [] ''pw2'' ''pw|k'' \<noteq> Inr ''k''
   \<and> ''pw'' \<noteq> '''' \<and> ''pw2'' \<noteq> '''' \<and> ''pw2'' \<noteq> ''pw''
   \<and> EncryptedPrivKey (Identity lockedCfg) = ''pw|k'' \<and> PrivKey (Identity lockedCfg) = ''k''
   \<and> validatePassword (sampleExt lockedCfg) lockedCfg (sampleReq [(''password'', StringOpt ''pw'')] []) []
     = ([CallDecryptWithAES ''pw'' ''pw|k''], Inr None)
   \<and> validatePassword (sampleExt lockedCfg) lockedCfg (sampleReq [(''password'', StringOpt ''pw2'')] []) []
     = ([CallDecryptWithAES ''pw2'' ''pw|k''], Inr (Some IncorrectPassword))"
proof -
  have enc: "EncryptWithAES (sampleExt lockedCfg) [] ''pw'' ''k'' = Inr ''pw|k''"
    by (simp add: sampleExt_def toyEncrypt_def)
  have rt: "\<forall>p m c. EncryptWithAES (sampleExt lockedCfg) [] p m = Inr c
          \<longrightarrow> DecryptWithAES (sampleExt lockedCfg) [] p c = Inr m"
    by (simp add: sampleExt_def toyDecrypt_toyEncrypt)
  have only: "\<forall>p. p \<noteq> ''pw'' \<longrightarrow> DecryptWithAES (sampleExt lockedCfg) [] p ''pw|k'' \<noteq> Inr ''k''"
    using toyDecrypt_only_key by (auto simp: sampleExt_def)
  have ne: "''pw'' \<noteq> ''''" by simp
  have c: "EncryptedPrivKey (Identity lockedCfg) = ''pw|k''" by (simp add: lockedCfg_def)
  have k: "PrivKey (Identity lockedCfg) = ''k''" by (simp add: lockedCfg_def)
  have both: "validatePassword (sampleExt lockedCfg) lockedCfg
           ((sampleReq [] [])\<lparr>Options := (Options (sampleReq [] []))(passwordOptionName \<mapsto> StringOpt ''pw'')\<rparr>) []
           = ([] @ [CallDecryptWithAES ''pw'' ''pw|k''], Inr None)
         \<and> (\<forall>P'. P' \<noteq> '''' \<and> P' \<noteq> ''pw'' \<longrightarrow>
               validatePassword (sampleExt lockedCfg) lockedCfg
                 ((sampleReq [] [])\<lparr>Options := (Options (sampleReq [] []))(passwordOptionName \<mapsto> StringOpt P')\<rparr>) []
                 = ([] @ [CallDecryptWithAES P' ''pw|k''], Inr (Some IncorrectPassword)))"
    by (rule validatePassword_roundtrip [OF enc rt only ne c k])
  have req: "(sampleReq [] [])\<lparr>Options := (Options (sampleReq [] []))(passwordOptionName \<mapsto> StringOpt x)\<rparr>
             = sampleReq [(''password'', StringOpt x)] []" for x
    by (simp add: sampleReq_def passwordOptionName_def)
  from both have "validatePassword (sampleExt lockedCfg) lockedCfg (sampleReq [(''password'', StringOpt ''pw'')] []) []
       = ([CallDecryptWithAES ''pw'' ''pw|k''], Inr None)"
    by (simp add: req)
  moreover from both have "validatePassword (sampleExt lockedCfg) lockedCfg (sampleReq [(''password'', StringOpt ''pw2'')] []) []
       = ([CallDecryptWithAES ''pw2'' ''pw|k''], Inr (Some IncorrectPassword))"
    by (simp add: req)
  moreover have "DecryptWithAES (sampleExt lockedCfg) [] ''pw'' ''pw|k'' = Inr ''k''"
    using enc rt by blast
  moreover have "DecryptWithAES (sampleExt lockedCfg) [] ''pw2'' ''pw|k'' \<noteq> Inr ''k''"
    using only by simp
  ultimately show ?thesis using enc c k by simp
qed

section \<open>Properties of the key retrieval\<close>

text \<open>
  C1, as stated, fails: a request without a password, which the gate rejects, gets the
  plaintext keys of a wallet without a password, and a request with a wrong password gets
  the encrypted keys of a locked wallet. No decryption call is in either trace.
\<close>

theorem walletKeysCmd_gate_counterexample:
  "validatePassword (sampleExt freshCfg) freshCfg (sampleReq [] []) []
     = ([], Inr (Some MissingPassword))
   \<and> walletKeysCmd (sampleExt freshCfg) (sampleReq [] []) []
     = ([CallGetNode, CallConfig sampleNode, CallEmitOnce (Keys ''k'' ''m'')], Returns None)
   \<and> validatePassword (sampleExt lockedCfg) lockedCfg (sampleReq [(''password'', StringOpt ''bad'')] []) []
     = ([CallDecryptWithAES ''bad'' ''pw|k''], Inr (Some IncorrectPassword))
   \<and> walletKeysCmd (sampleExt lockedCfg) (sampleReq [(''password'', StringOpt ''bad'')] []) []
     = ([CallGetNode, CallConfig sampleNode, CallEmitOnce (Keys ''pw|k'' ''pw|m'')], Returns None)"
  by (simp add: validatePassword_eq walletKeysCmd_def act_defs sample_defs)

text \<open>
  C1, amended. The key-retrieval operation does not call the credential gate and does not
  look at the request: once the node and its configuration are fetched, it emits the
  encrypted private key and mnemonic when the wallet is initialized and the plaintext ones
  when it is not, and returns what the emitter returns.
\<close>

theorem walletKeysCmd_ungated:
  assumes "GetNode e t = Inr n" and "Config e (t @ [CallGetNode]) n = Inr cfg"
  shows "walletKeysCmd e req t =
           (let keys = (if Initialized (Wallet (UI cfg))
                        then Keys (EncryptedPrivKey (Identity cfg)) (EncryptedMnemonic (Identity cfg))
                        else Keys (PrivKey (Identity cfg)) (Mnemonic (Identity cfg)))
            in (t @ [CallGetNode, CallConfig n, CallEmitOnce keys],
                Returns (EmitOnce e (t @ [CallGetNode, CallConfig n]) keys)))"
  using assms by (simp add: walletKeysCmd_def act_defs Let_def)

theorem walletKeysCmd_ungated_witness:
  "GetNode (sampleExt lockedCfg) [] = Inr sampleNode
   \<and> Config (sampleExt lockedCfg) ([] @ [CallGetNode]) sampleNode = Inr lockedCfg
   \<and> walletKeysCmd (sampleExt lockedCfg) (sampleReq [(''password'', StringOpt ''bad'')] []) []
     = ([CallGetNode, CallConfig sampleNode, CallEmitOnce (Keys ''pw|k'' ''pw|m'')], Returns None)"
  using walletKeysCmd_ungated
    [of "sampleExt lockedCfg" "[]" sampleNode lockedCfg "sampleReq [(''password'', StringOpt ''bad'')] []"]
  by (simp add: sample_defs)

section \<open>Properties of the monetary operations\<close>

text \<open>
  C2, as stated, fails: the gate runs before the amount is parsed. A deposit of the
  amount \<open>abc\<close> without a password fails with the missing-password error, and a
  withdrawal of \<open>abc\<close> with a wrong password fails with the incorrect-password error
  after the decryption call.
\<close>

theorem amount_before_gate_counterexample:
  "ParseInt ''abc'' = Inl (NumError ''ParseInt'' ''abc'' ErrSyntax)
   \<and> walletDepositCmd (sampleExt lockedCfg) (sampleReq [] [''abc'']) []
     = ([CallGetNode, CallConfig sampleNode], Returns (Some MissingPassword))
   \<and> walletWithdrawCmd (sampleExt lockedCfg) (sampleReq [(''password'', StringOpt ''bad'')] [''abc'']) []
     = ([CallGetNode, CallConfig sampleNode, CallDecryptWithAES ''bad'' ''pw|k''],
        Returns (Some IncorrectPassword))"
  by (simp add: walletDepositCmd_def walletWithdrawCmd_def validatePassword_eq act_defs sample_defs
        ParseInt_defs)

text \<open>
  C2, amended. For a deposit, a withdrawal or a transfer whose amount argument is not a
  parseable integer, the credential gate runs first: when it rejects the password the
  operation returns the gate's error, and when it accepts, the operation returns the
  error of \<open>ParseInt\<close>, a \<open>NumError\<close> for the amount. In both cases the trace
  ends with the gate (at most the one decryption call after the node and the configuration
  are fetched): no wallet delegate is called.
\<close>

theorem amount_checked_after_gate:
  assumes "GetNode e t = Inr n" and "Config e (t @ [CallGetNode]) n = Inr cfg"
    and "ParseInt amount = Inl err"
    and "validatePassword e cfg req (t @ [CallGetNode, CallConfig n]) = (t', Inr gate)"
  shows "walletDepositCmd e (req\<lparr>Arguments := amount # rest\<rparr>) t
           = (t', Returns (Some (case gate of Some gerr \<Rightarrow> gerr | None \<Rightarrow> err)))
         \<and> walletWithdrawCmd e (req\<lparr>Arguments := amount # rest\<rparr>) t
           = (t', Returns (Some (case gate of Some gerr \<Rightarrow> gerr | None \<Rightarrow> err)))
         \<and> walletTransferCmd e (req\<lparr>Arguments := to # amount # rest\<rparr>) t
           = (t', Returns (Some (case gate of Some gerr \<Rightarrow> gerr | None \<Rightarrow> err)))
         \<and> (t' = t @ [CallGetNode, CallConfig n]
              \<or> (\<exists>pw. t' = t @ [CallGetNode, CallConfig n,
                                  CallDecryptWithAES pw (EncryptedPrivKey (Identity cfg))]))
         \<and> (\<exists>cause. err = NumError ''ParseInt'' amount cause)"
proof -
  have invalid: "\<exists>cause. err = NumError ''ParseInt'' amount cause"
    using assms(3) by (rule ParseInt_error)
  have deposit: "walletDepositCmd e (req\<lparr>Arguments := amount # rest\<rparr>) t
           = (t', Returns (Some (case gate of Some gerr \<Rightarrow> gerr | None \<Rightarrow> err)))"
    using assms
    by (simp add: walletDepositCmd_def act_defs validatePassword_Arguments split: option.splits)
  have withdraw: "walletWithdrawCmd e (req\<lparr>Arguments := amount # rest\<rparr>) t
           = (t', Returns (Some (case gate of Some gerr \<Rightarrow> gerr | None \<Rightarrow> err)))"
    using assms
    by (simp add: walletWithdrawCmd_def act_defs validatePassword_Arguments split: option.splits)
  have transfer: "walletTransferCmd e (req\<lparr>Arguments := to # amount # rest\<rparr>) t
           = (t', Returns (Some (case gate of Some gerr \<Rightarrow> gerr | None \<Rightarrow> err)))"
    using assms
    by (simp add: walletTransferCmd_def act_defs validatePassword_Arguments split: option.splits)
  have "t' = t @ [CallGetNode, CallConfig n]
        \<or> (\<exists>pw. t' = (t @ [CallGetNode, CallConfig n]) @ [CallDecryptWithAES pw (EncryptedPrivKey (Identity cfg))])"
    using assms(4) by (rule validatePassword_trace)
  with deposit withdraw transfer invalid show ?thesis by simp
qed

theorem amount_checked_after_gate_witness:
  "GetNode (sampleExt lockedCfg) [] = Inr sampleNode
   \<and> Config (sampleExt lockedCfg) ([] @ [CallGetNode]) sampleNode = Inr lockedCfg
   \<and> ParseInt ''1e3'' = Inl (NumError ''ParseInt'' ''1e3'' ErrSyntax)
   \<and> validatePassword (sampleExt lockedCfg) lockedCfg (sampleReq [(''password'', StringOpt ''pw'')] [])
        ([] @ [CallGetNode, CallConfig sampleNode])
      = ([CallGetNode, CallConfig sampleNode, CallDecryptWithAES ''pw'' ''pw|k''], Inr None)
   \<and> walletDepositCmd (sampleExt lockedCfg) (sampleReq [(''password'', StringOpt ''pw'')] [''1e3'']) []
      = ([CallGetNode, CallConfig sampleNode, CallDecryptWithAES ''pw'' ''pw|k''],
         Returns (Some (NumError ''ParseInt'' ''1e3'' ErrSyntax)))
   \<and> walletTransferCmd (sampleExt lockedCfg)
        (sampleReq [(''password'', StringOpt ''pw'')] [''TXYZ'', ''1e3'']) []
      = ([CallGetNode, CallConfig sampleNode, CallDecryptWithAES ''pw'' ''pw|k''],
         Returns (Some (NumError ''ParseInt'' ''1e3'' ErrSyntax)))"
proof -
  have node: "GetNode (sampleExt lockedCfg) [] = Inr sampleNode"
    by (simp add: sample_defs)
  have cfg: "Config (sampleExt lockedCfg) ([] @ [CallGetNode]) sampleNode = Inr lockedCfg"
    by (simp add: sample_defs)
  have amount: "ParseInt ''1e3'' = Inl (NumError ''ParseInt'' ''1e3'' ErrSyntax)"
    by (simp add: ParseInt_defs)
  have gate: "validatePassword (sampleExt lockedCfg) lockedCfg (sampleReq [(''password'', StringOpt ''pw'')] [])
        ([] @ [CallGetNode, CallConfig sampleNode])
      = ([CallGetNode, CallConfig sampleNode, CallDecryptWithAES ''pw'' ''pw|k''], Inr None)"
    by (simp add: validatePassword_eq sample_defs)
  show ?thesis
    using amount_checked_after_gate [OF node cfg amount gate, of "[]" "''TXYZ''"]
      node cfg amount gate
    by (simp add: sampleReq_def)
qed

text \<open>
  The deposit and the withdrawal once their delegate has returned an error: each under its
  own conditions.
\<close>

lemma walletDepositCmd_delegate_error:
  assumes "GetNode e t = Inr n" and "Config e (t @ [CallGetNode]) n = Inr cfg"
    and "validatePassword e cfg req (t @ [CallGetNode, CallConfig n]) = (t1, Inr None)"
    and "ParseInt amount = Inr a"
    and "GetNode e t1 = Inr currentNode"
    and "WalletDeposit e (t1 @ [CallGetNode]) cfg n a (IsDaemon currentNode)
           (case Options req asyncOptionName of Some (BoolOpt b) \<Rightarrow> b | _ \<Rightarrow> False) = Some derr"
  shows "walletDepositCmd e (req\<lparr>Arguments := amount # rest\<rparr>) t
           = (t1 @ [CallGetNode,
                    CallWalletDeposit cfg n a (IsDaemon currentNode)
                      (case Options req asyncOptionName of Some (BoolOpt b) \<Rightarrow> b | _ \<Rightarrow> False)],
              Returns (Some (if Contains (Error (Quote e) derr) ''Please deposit at least''
                             then depositThreshold else derr)))"
  using assms
  by (simp add: walletDepositCmd_def act_defs validatePassword_Arguments Let_def)

lemma walletWithdrawCmd_delegate_error:
  assumes "GetNode e t = Inr n" and "Config e (t @ [CallGetNode]) n = Inr cfg"
    and "validatePassword e cfg req (t @ [CallGetNode, CallConfig n]) = (t1, Inr None)"
    and "ParseInt amount = Inr a"
    and "WalletWithdraw e t1 cfg n a = Some werr"
  shows "walletWithdrawCmd e (req\<lparr>Arguments := amount # rest\<rparr>) t
           = (t1 @ [CallWalletWithdraw cfg n a],
              Returns (Some (if Contains (Error (Quote e) werr) ''Please withdraw at least''
                             then withdrawThreshold else werr)))"
  using assms
  by (simp add: walletWithdrawCmd_def act_defs validatePassword_Arguments Let_def)

text \<open>
  C6. Whenever the deposit reaches its delegate and the delegate returns an error whose
  text contains \<open>Please deposit at least\<close>, the deposit returns an error whose text is
  exactly the canonical deposit message (with the micro sign as its two UTF-8 bytes); any
  other error of the delegate is returned as it is. Independently, whenever the withdrawal
  reaches its delegate and the delegate returns an error whose text contains
  \<open>Please withdraw at least\<close>, the withdrawal returns an error whose text is exactly the
  canonical withdrawal message, and any other error of the delegate is returned as it is.
  The two halves have their own conditions: neither depends on the other delegate.
\<close>

theorem threshold_errors_rewritten:
  "(GetNode e t = Inr n \<and> Config e (t @ [CallGetNode]) n = Inr cfg
      \<and> validatePassword e cfg req (t @ [CallGetNode, CallConfig n]) = (t1, Inr None)
      \<and> ParseInt amount = Inr a
      \<and> GetNode e t1 = Inr currentNode
      \<and> WalletDeposit e (t1 @ [CallGetNode]) cfg n a (IsDaemon currentNode)
           (case Options req asyncOptionName of Some (BoolOpt b) \<Rightarrow> b | _ \<Rightarrow> False) = Some derr
    \<longrightarrow> walletDepositCmd e (req\<lparr>Arguments := amount # rest\<rparr>) t
           = (t1 @ [CallGetNode,
                    CallWalletDeposit cfg n a (IsDaemon currentNode)
                      (case Options req asyncOptionName of Some (BoolOpt b) \<Rightarrow> b | _ \<Rightarrow> False)],
              Returns (Some (if Contains (Error (Quote e) derr) ''Please deposit at least''
                             then ErrorString (''Please deposit at least 10,000,000''
                                               @ [CHR 0xC2, CHR 0xB5] @ ''BTT(=10BTT)'')
                             else derr))))
   \<and> (GetNode e' t' = Inr n' \<and> Config e' (t' @ [CallGetNode]) n' = Inr cfg'
      \<and> validatePassword e' cfg' req' (t' @ [CallGetNode, CallConfig n']) = (t1', Inr None)
      \<and> ParseInt amount' = Inr a'
      \<and> WalletWithdraw e' t1' cfg' n' a' = Some werr
    \<longrightarrow> walletWithdrawCmd e' (req'\<lparr>Arguments := amount' # rest'\<rparr>) t'
           = (t1' @ [CallWalletWithdraw cfg' n' a'],
              Returns (Some (if Contains (Error (Quote e') werr) ''Please withdraw at least''
                             then ErrorString (''Please withdraw at least 1,000,000,000''
                                               @ [CHR 0xC2, CHR 0xB5] @ ''BTT(=1000BTT)'')
                             else werr))))"
proof (intro conjI impI)
  assume "GetNode e t = Inr n \<and> Config e (t @ [CallGetNode]) n = Inr cfg
      \<and> validatePassword e cfg req (t @ [CallGetNode, CallConfig n]) = (t1, Inr None)
      \<and> ParseInt amount = Inr a
      \<and> GetNode e t1 = Inr currentNode
      \<and> WalletDeposit e (t1 @ [CallGetNode]) cfg n a (IsDaemon currentNode)
           (case Options req asyncOptionName of Some (BoolOpt b) \<Rightarrow> b | _ \<Rightarrow> False) = Some derr"
  then show "walletDepositCmd e (req\<lparr>Arguments := amount # rest\<rparr>) t
           = (t1 @ [CallGetNode,
                    CallWalletDeposit cfg n a (IsDaemon currentNode)
                      (case Options req asyncOptionName of Some (BoolOpt b) \<Rightarrow> b | _ \<Rightarrow> False)],
              Returns (Some (if Contains (Error (Quote e) derr) ''Please deposit at least''
                             then ErrorString (''Please deposit at least 10,000,000''
                                               @ [CHR 0xC2, CHR 0xB5] @ ''BTT(=10BTT)'')
                             else derr)))"
    using walletDepositCmd_delegate_error [of e t n cfg req t1 amount a currentNode derr rest]
    by (simp add: depositThreshold_def)
next
  assume "GetNode e' t' = Inr n' \<and> Config e' (t' @ [CallGetNode]) n' = Inr cfg'
      \<and> validatePassword e' cfg' req' (t' @ [CallGetNode, CallConfig n']) = (t1', Inr None)
      \<and> ParseInt amount' = Inr a'
      \<and> WalletWithdraw e' t1' cfg' n' a' = Some werr"
  then show "walletWithdrawCmd e' (req'\<lparr>Arguments := amount' # rest'\<rparr>) t'
           = (t1' @ [CallWalletWithdraw cfg' n' a'],
              Returns (Some (if Contains (Error (Quote e') werr) ''Please withdraw at least''
                             then ErrorString (''Please withdraw at least 1,000,000,000''
                                               @ [CHR 0xC2, CHR 0xB5] @ ''BTT(=1000BTT)'')
                             else werr)))"
    using walletWithdrawCmd_delegate_error [of e' t' n' cfg' req' t1' amount' a' werr rest']
    by (simp add: withdrawThreshold_def)
qed

theorem threshold_errors_rewritten_witness:
  "ParseInt ''5'' = Inr 5
   \<and> WalletDeposit (sampleExt lockedCfg)
        [CallGetNode, CallConfig sampleNode, CallDecryptWithAES ''pw'' ''pw|k'', CallGetNode]
        lockedCfg sampleNode 5 True False
      = Some (ErrorString ''ledger: Please deposit at least 10000000'')
   \<and> walletDepositCmd (sampleExt lockedCfg) (sampleReq [(''password'', StringOpt ''pw'')] [''5'']) []
      = ([CallGetNode, CallConfig sampleNode, CallDecryptWithAES ''pw'' ''pw|k'', CallGetNode,
          CallWalletDeposit lockedCfg sampleNode 5 True False],
         Returns (Some (ErrorString (''Please deposit at least 10,000,000''
                                     @ [CHR 0xC2, CHR 0xB5] @ ''BTT(=10BTT)''))))
   \<and> ParseInt ''50000000'' = Inr 50000000
   \<and> WalletDeposit ((sampleExt lockedCfg)\<lparr>WalletDeposit := (\<lambda>t c n a d s. None)\<rparr>)
        [CallGetNode, CallConfig sampleNode, CallDecryptWithAES ''pw'' ''pw|k'', CallGetNode]
        lockedCfg sampleNode 50000000 True False
      = None
   \<and> WalletWithdraw ((sampleExt lockedCfg)\<lparr>WalletDeposit := (\<lambda>t c n a d s. None)\<rparr>)
        [CallGetNode, CallConfig sampleNode, CallDecryptWithAES ''pw'' ''pw|k'']
        lockedCfg sampleNode 50000000
      = Some (ErrorString ''ledger: Please withdraw at least 1000000000'')
   \<and> walletWithdrawCmd ((sampleExt lockedCfg)\<lparr>WalletDeposit := (\<lambda>t c n a d s. None)\<rparr>)
        (sampleReq [(''password'', StringOpt ''pw'')] [''50000000'']) []
      = ([CallGetNode, CallConfig sampleNode, CallDecryptWithAES ''pw'' ''pw|k'',
          CallWalletWithdraw lockedCfg sampleNode 50000000],
         Returns (Some (ErrorString (''Please withdraw at least 1,000,000,000''
                                     @ [CHR 0xC2, CHR 0xB5] @ ''BTT(=1000BTT)''))))"
proof -
  let ?req = "sampleReq [(''password'', StringOpt ''pw'')] []"
  let ?t1 = "[CallGetNode, CallConfig sampleNode, CallDecryptWithAES ''pw'' ''pw|k'']"
  let ?e' = "(sampleExt lockedCfg)\<lparr>WalletDeposit := (\<lambda>t c n a d s. None)\<rparr>"
  have node: "GetNode (sampleExt lockedCfg) [] = Inr sampleNode"
    by (simp add: sample_defs)
  have cfg: "Config (sampleExt lockedCfg) ([] @ [CallGetNode]) sampleNode = Inr lockedCfg"
    by (simp add: sample_defs)
  have gate: "validatePassword (sampleExt lockedCfg) lockedCfg ?req
        ([] @ [CallGetNode, CallConfig sampleNode]) = (?t1, Inr None)"
    by (simp add: validatePassword_eq sample_defs)
  have amount: "ParseInt ''5'' = Inr 5"
    by (simp add: ParseInt_defs)
  have node2: "GetNode (sampleExt lockedCfg) ?t1 = Inr sampleNode"
    by (simp add: sample_defs)
  have dep: "WalletDeposit (sampleExt lockedCfg) (?t1 @ [CallGetNode]) lockedCfg sampleNode 5
               (IsDaemon sampleNode)
               (case Options ?req asyncOptionName of Some (BoolOpt b) \<Rightarrow> b | _ \<Rightarrow> False)
             = Some (ErrorString ''ledger: Please deposit at least 10000000'')"
    by (simp add: sample_defs)
  have node': "GetNode ?e' [] = Inr sampleNode"
    by (simp add: sample_defs)
  have cfg': "Config ?e' ([] @ [CallGetNode]) sampleNode = Inr lockedCfg"
    by (simp add: sample_defs)
  have gate': "validatePassword ?e' lockedCfg ?req
        ([] @ [CallGetNode, CallConfig sampleNode]) = (?t1, Inr None)"
    by (simp add: validatePassword_eq sample_defs)
  have amount': "ParseInt ''50000000'' = Inr 50000000"
    by (simp add: ParseInt_defs)
  have dep': "WalletDeposit ?e' (?t1 @ [CallGetNode]) lockedCfg sampleNode 50000000 True False = None"
    by (simp add: sample_defs)
  have wd': "WalletWithdraw ?e' ?t1 lockedCfg sampleNode 50000000
             = Some (ErrorString ''ledger: Please withdraw at least 1000000000'')"
    by (simp add: sample_defs)
  have both: "walletDepositCmd (sampleExt lockedCfg) (?req\<lparr>Arguments := ''5'' # []\<rparr>) []
           = (?t1 @ [CallGetNode,
                    CallWalletDeposit lockedCfg sampleNode 5 (IsDaemon sampleNode)
                      (case Options ?req asyncOptionName of Some (BoolOpt b) \<Rightarrow> b | _ \<Rightarrow> False)],
              Returns (Some (if Contains (Error (Quote (sampleExt lockedCfg))
                                            (ErrorString ''ledger: Please deposit at least 10000000''))
                                   ''Please deposit at least''
                             then ErrorString (''Please deposit at least 10,000,000''
                                               @ [CHR 0xC2, CHR 0xB5] @ ''BTT(=10BTT)'')
                             else ErrorString ''ledger: Please deposit at least 10000000'')))
       \<and> walletWithdrawCmd ?e' (?req\<lparr>Arguments := ''50000000'' # []\<rparr>) []
           = (?t1 @ [CallWalletWithdraw lockedCfg sampleNode 50000000],
              Returns (Some (if Contains (Error (Quote ?e')
                                            (ErrorString ''ledger: Please withdraw at least 1000000000''))
                                   ''Please withdraw at least''
                             then ErrorString (''Please withdraw at least 1,000,000,000''
                                               @ [CHR 0xC2, CHR 0xB5] @ ''BTT(=1000BTT)'')
                             else ErrorString ''ledger: Please withdraw at least 1000000000'')))"
    using threshold_errors_rewritten
      [where e = "sampleExt lockedCfg" and t = "[]" and n = sampleNode and cfg = lockedCfg
         and req = ?req and ?t1.0 = ?t1 and amount = "''5''" and a = 5
         and currentNode = sampleNode
         and derr = "ErrorString ''ledger: Please deposit at least 10000000''" and rest = "[]"
         and e' = ?e' and t' = "[]" and n' = sampleNode and cfg' = lockedCfg
         and req' = ?req and t1' = ?t1 and amount' = "''50000000''" and a' = 50000000
         and werr = "ErrorString ''ledger: Please withdraw at least 1000000000''" and rest' = "[]"]
      node cfg gate amount node2 dep node' cfg' gate' amount' wd'
    by blast
  have req: "?req\<lparr>Arguments := args\<rparr> = sampleReq [(''password'', StringOpt ''pw'')] args" for args
    by (simp add: sampleReq_def)
  from both amount amount' dep dep' wd' show ?thesis
    by (simp add: req sampleNode_def sample_defs HasPrefix_def)
qed

section \<open>Properties of the password-set operation\<close>

text \<open>
  C3, as stated, fails: setting the password does not set the \<open>Initialized\<close> flag. On a
  repository that answers with the configuration stored last, a first password-set
  succeeds and a second one, run after it, succeeds too and stores the encrypted fields a
  second time.
\<close>

theorem walletPasswordCmd_twice_counterexample:
  "walletPasswordCmd (sampleExt freshCfg) (sampleReq [] [''pw'']) []
     = ([CallGetNode, CallConfig sampleNode,
         CallEncryptWithAES ''pw'' ''m'', CallEncryptWithAES ''pw'' ''k'',
         CallSetConfig sampleNode
           (freshCfg\<lparr>Identity := (Identity freshCfg)
              \<lparr>EncryptedPrivKey := ''pw|k'', EncryptedMnemonic := ''pw|m''\<rparr>\<rparr>),
         CallEmitOnce (MessageOutput ''Password set.'')],
        Returns None)
   \<and> walletPasswordCmd (sampleExt freshCfg) (sampleReq [] [''pw2''])
       [CallGetNode, CallConfig sampleNode,
        CallEncryptWithAES ''pw'' ''m'', CallEncryptWithAES ''pw'' ''k'',
        CallSetConfig sampleNode
          (freshCfg\<lparr>Identity := (Identity freshCfg)
             \<lparr>EncryptedPrivKey := ''pw|k'', EncryptedMnemonic := ''pw|m''\<rparr>\<rparr>),
        CallEmitOnce (MessageOutput ''Password set.'')]
     = ([CallGetNode, CallConfig sampleNode,
         CallEncryptWithAES ''pw'' ''m'', CallEncryptWithAES ''pw'' ''k'',
         CallSetConfig sampleNode
           (freshCfg\<lparr>Identity := (Identity freshCfg)
              \<lparr>EncryptedPrivKey := ''pw|k'', EncryptedMnemonic := ''pw|m''\<rparr>\<rparr>),
         CallEmitOnce (MessageOutput ''Password set.''),
         CallGetNode, CallConfig sampleNode,
         CallEncryptWithAES ''pw2'' ''m'', CallEncryptWithAES ''pw2'' ''k'',
         CallSetConfig sampleNode
           (freshCfg\<lparr>Identity := (Identity freshCfg)
              \<lparr>EncryptedPrivKey := ''pw2|k'', EncryptedMnemonic := ''pw2|m''\<rparr>\<rparr>),
         CallEmitOnce (MessageOutput ''Password set.'')],
        Returns None)"
  by (simp add: walletPasswordCmd_def act_defs sample_defs Let_def)

text \<open>
  C3, amended. The password-set operation on a configuration whose \<open>Initialized\<close> flag
  is true fails with the already-initialized error right after the configuration is
  fetched: nothing is encrypted and nothing is stored.
\<close>

theorem walletPasswordCmd_initialized:
  assumes "GetNode e t = Inr n" and "Config e (t @ [CallGetNode]) n = Inr cfg"
    and "Initialized (Wallet (UI cfg))"
  shows "walletPasswordCmd e req t
           = (t @ [CallGetNode, CallConfig n], Returns (Some AlreadyInitialized))"
  using assms by (simp add: walletPasswordCmd_def act_defs)

theorem walletPasswordCmd_initialized_witness:
  "GetNode (sampleExt lockedCfg) [] = Inr sampleNode
   \<and> Config (sampleExt lockedCfg) ([] @ [CallGetNode]) sampleNode = Inr lockedCfg
   \<and> Initialized (Wallet (UI lockedCfg))
   \<and> walletPasswordCmd (sampleExt lockedCfg) (sampleReq [] [''pw2'']) []
      = ([CallGetNode, CallConfig sampleNode],
         Returns (Some (ErrorString ''Already init, cannot set password again.'')))"
  using walletPasswordCmd_initialized
    [of "sampleExt lockedCfg" "[]" sampleNode lockedCfg "sampleReq [] [''pw2'']"]
  by (simp add: sample_defs AlreadyInitialized_def)

text \<open>
  C10. A password-set that gets as far as storing gives \<open>SetConfig\<close> the configuration
  it read with only \<open>EncryptedMnemonic\<close> and \<open>EncryptedPrivKey\<close> replaced by the two
  ciphertexts: the \<open>Initialized\<close> flag, the plaintext key and mnemonic and every other
  field are the ones read. It then emits its message when the store succeeds.
\<close>

theorem walletPasswordCmd_frame:
  assumes "GetNode e t = Inr n" and "Config e (t @ [CallGetNode]) n = Inr cfg"
    and "\<not> Initialized (Wallet (UI cfg))"
    and "Arguments req = password # rest"
    and "EncryptWithAES e (t @ [CallGetNode, CallConfig n]) password (Mnemonic (Identity cfg))
           = Inr cipherMnemonic"
    and "EncryptWithAES e (t @ [CallGetNode, CallConfig n,
                                CallEncryptWithAES password (Mnemonic (Identity cfg))])
           password (PrivKey (Identity cfg)) = Inr cipherPrivKey"
    and "t3 = t @ [CallGetNode, CallConfig n,
                   CallEncryptWithAES password (Mnemonic (Identity cfg)),
                   CallEncryptWithAES password (PrivKey (Identity cfg))]"
    and "cfg' = cfg\<lparr>Identity := (Identity cfg)
                   \<lparr>EncryptedMnemonic := cipherMnemonic, EncryptedPrivKey := cipherPrivKey\<rparr>\<rparr>"
  shows "walletPasswordCmd e req t
           = (case SetConfig e t3 n cfg' of
                Some err \<Rightarrow> (t3 @ [CallSetConfig n cfg'], Returns (Some err))
              | None \<Rightarrow> (t3 @ [CallSetConfig n cfg', CallEmitOnce (MessageOutput ''Password set.'')],
                         Returns (EmitOnce e (t3 @ [CallSetConfig n cfg'])
                                    (MessageOutput ''Password set.''))))
         \<and> Initialized (Wallet (UI cfg')) = Initialized (Wallet (UI cfg))
         \<and> PrivKey (Identity cfg') = PrivKey (Identity cfg)
         \<and> Mnemonic (Identity cfg') = Mnemonic (Identity cfg)
         \<and> UI cfg' = UI cfg
         \<and> Other cfg' = Other cfg"
  using assms by (simp add: walletPasswordCmd_def act_defs Let_def split: option.splits)

theorem walletPasswordCmd_frame_witness:
  "GetNode (sampleExt freshCfg) [] = Inr sampleNode
   \<and> Config (sampleExt freshCfg) ([] @ [CallGetNode]) sampleNode = Inr freshCfg
   \<and> \<not> Initialized (Wallet (UI freshCfg))
   \<and> Arguments (sampleReq [] [''pw'']) = ''pw'' # []
   \<and> EncryptWithAES (sampleExt freshCfg) ([] @ [CallGetNode, CallConfig sampleNode]) ''pw''
        (Mnemonic (Identity freshCfg)) = Inr ''pw|m''
   \<and> EncryptWithAES (sampleExt freshCfg)
        ([] @ [CallGetNode, CallConfig sampleNode,
               CallEncryptWithAES ''pw'' (Mnemonic (Identity freshCfg))])
        ''pw'' (PrivKey (Identity freshCfg)) = Inr ''pw|k''
   \<and> walletPasswordCmd (sampleExt freshCfg) (sampleReq [] [''pw'']) []
      = ([CallGetNode, CallConfig sampleNode,
          CallEncryptWithAES ''pw'' ''m'', CallEncryptWithAES ''pw'' ''k'',
          CallSetConfig sampleNode
            \<lparr>Identity = \<lparr>PrivKey = ''k'', Mnemonic = ''m'',
                         EncryptedPrivKey = ''pw|k'', EncryptedMnemonic = ''pw|m''\<rparr>,
             UI = \<lparr>Wallet = \<lparr>Initialized = False\<rparr>\<rparr>, Other = ()\<rparr>,
          CallEmitOnce (MessageOutput ''Password set.'')],
         Returns None)"
proof -
  have node: "GetNode (sampleExt freshCfg) [] = Inr sampleNode"
    by (simp add: sample_defs)
  have cfg: "Config (sampleExt freshCfg) ([] @ [CallGetNode]) sampleNode = Inr freshCfg"
    by (simp add: sample_defs)
  have flag: "\<not> Initialized (Wallet (UI freshCfg))"
    by (simp add: sample_defs)
  have args: "Arguments (sampleReq [] [''pw'']) = ''pw'' # []"
    by (simp add: sample_defs)
  have enc1: "EncryptWithAES (sampleExt freshCfg) ([] @ [CallGetNode, CallConfig sampleNode]) ''pw''
        (Mnemonic (Identity freshCfg)) = Inr ''pw|m''"
    by (simp add: sample_defs)
  have enc2: "EncryptWithAES (sampleExt freshCfg)
        ([] @ [CallGetNode, CallConfig sampleNode,
               CallEncryptWithAES ''pw'' (Mnemonic (Identity freshCfg))])
        ''pw'' (PrivKey (Identity freshCfg)) = Inr ''pw|k''"
    by (simp add: sample_defs)
  show ?thesis
    using walletPasswordCmd_frame [OF node cfg flag args enc1 enc2 refl refl]
      node cfg flag args enc1 enc2
    by (simp add: sample_defs)
qed

section \<open>Properties of the restart\<close>

text \<open>
  The whole behaviour of the restart when the flag is a boolean: with relocation the
  calls are the move, the write and the start of the child with the extended environment;
  without it the only call before the exit is the start of the child as it was created.
\<close>

lemma restartCmd_eq:
  assumes "Options req postPathModificationName = Some (BoolOpt flag)"
  shows "restartCmd e req t =
     (if flag \<and> StorePath e t \<noteq> '''' \<and> OriginPath e t \<noteq> '''' then
        (case MoveFolder e t of
           Some err \<Rightarrow> (t @ [CallMoveFolder], Returns (Some err))
         | None \<Rightarrow>
            (case WriteProperties e (t @ [CallMoveFolder]) of
               Some err \<Rightarrow> (t @ [CallMoveFolder, CallWriteProperties], Returns (Some err))
             | None \<Rightarrow>
                (case Start e (t @ [CallMoveFolder, CallWriteProperties])
                        ((Command (Excutable e t) [''daemon''])
                           \<lparr>Env := Some (Environ e (t @ [CallMoveFolder, CallWriteProperties])
                                        @ [''BTFS_PATH='' @ StorePath e (t @ [CallMoveFolder, CallWriteProperties])])\<rparr>) of
                   Some err \<Rightarrow>
                     (t @ [CallMoveFolder, CallWriteProperties,
                           CallStart ((Command (Excutable e t) [''daemon''])
                             \<lparr>Env := Some (Environ e (t @ [CallMoveFolder, CallWriteProperties])
                                          @ [''BTFS_PATH='' @ StorePath e (t @ [CallMoveFolder, CallWriteProperties])])\<rparr>)],
                      Returns (Some err))
                 | None \<Rightarrow>
                     (t @ [CallMoveFolder, CallWriteProperties,
                           CallStart ((Command (Excutable e t) [''daemon''])
                             \<lparr>Env := Some (Environ e (t @ [CallMoveFolder, CallWriteProperties])
                                          @ [''BTFS_PATH='' @ StorePath e (t @ [CallMoveFolder, CallWriteProperties])])\<rparr>),
                           CallExit 0],
                      Exits 0))))
      else
        (case Start e t (Command (Excutable e t) [''daemon'']) of
           Some err \<Rightarrow> (t @ [CallStart (Command (Excutable e t) [''daemon''])], Returns (Some err))
         | None \<Rightarrow> (t @ [CallStart (Command (Excutable e t) [''daemon'']), CallExit 0], Exits 0)))"
  using assms
  by (simp add: restartCmd_def assertBool_def act_defs Let_def split: option.splits)

text \<open>
  C7. With the flag set and both paths non-empty, the first call of the restart is the
  relocation. In every other case the restart makes no relocation and no property-write:
  its only calls are the start of the child, whose environment is not set (the child
  inherits the parent's, without a \<open>BTFS_PATH\<close> entry added), and the exit after a
  successful start.
\<close>

theorem restartCmd_relocates_iff:
  assumes "Options req postPathModificationName = Some (BoolOpt flag)"
    and "child = \<lparr>Path = Excutable e t, Args = [Excutable e t, ''daemon''], Env = None\<rparr>"
  shows "if flag \<and> StorePath e t \<noteq> '''' \<and> OriginPath e t \<noteq> ''''
         then \<exists>rest out. restartCmd e req t = (t @ CallMoveFolder # rest, out)
         else restartCmd e req t =
                (case Start e t child of
                   Some err \<Rightarrow> (t @ [CallStart child], Returns (Some err))
                 | None \<Rightarrow> (t @ [CallStart child, CallExit 0], Exits 0))"
  using assms
  by (simp add: restartCmd_eq [OF assms(1)] Command_def split: option.splits)

theorem restartCmd_relocates_iff_witness:
  "Options (sampleReq [(''post-path-modification'', BoolOpt False)] []) postPathModificationName
     = Some (BoolOpt False)
   \<and> restartCmd (sampleExt lockedCfg) (sampleReq [(''post-path-modification'', BoolOpt False)] []) []
     = ([CallStart \<lparr>Path = ''/usr/local/bin/btfs'', Args = [''/usr/local/bin/btfs'', ''daemon''], Env = None\<rparr>,
         CallExit 0], Exits 0)
   \<and> Options (sampleReq [(''post-path-modification'', BoolOpt True)] []) postPathModificationName
     = Some (BoolOpt True)
   \<and> (\<exists>rest out. restartCmd (sampleExt lockedCfg) (sampleReq [(''post-path-modification'', BoolOpt True)] []) []
         = ([] @ CallMoveFolder # rest, out))"
  using restartCmd_relocates_iff
      [of "sampleReq [(''post-path-modification'', BoolOpt False)] []" False _ "sampleExt lockedCfg" "[]", OF _ refl]
    restartCmd_relocates_iff
      [of "sampleReq [(''post-path-modification'', BoolOpt True)] []" True _ "sampleExt lockedCfg" "[]", OF _ refl]
  by (simp add: sample_defs)

text \<open>
  C8. With the flag set, both paths non-empty and a relocation and a property-write that
  succeed, the calls are, in this order: the move of the folder, the write of the
  properties, the start of the child, whose environment is the parent's followed by
  \<open>BTFS_PATH\<close> set to the store path, and, only when the start succeeded, the exit with
  code 0. When the start fails its error is returned and there is no exit.
\<close>

theorem restartCmd_relocation_order:
  assumes "Options req postPathModificationName = Some (BoolOpt True)"
    and "StorePath e t \<noteq> ''''" and "OriginPath e t \<noteq> ''''"
    and "MoveFolder e t = None" and "WriteProperties e (t @ [CallMoveFolder]) = None"
    and "t2 = t @ [CallMoveFolder, CallWriteProperties]"
    and "child = \<lparr>Path = Excutable e t, Args = [Excutable e t, ''daemon''],
                  Env = Some (Environ e t2 @ [''BTFS_PATH='' @ StorePath e t2])\<rparr>"
  shows "restartCmd e req t =
           (case Start e t2 child of
              None \<Rightarrow> (t @ [CallMoveFolder, CallWriteProperties, CallStart child, CallExit 0], Exits 0)
            | Some err \<Rightarrow> (t @ [CallMoveFolder, CallWriteProperties, CallStart child], Returns (Some err)))"
  using assms(2-)
  by (simp add: restartCmd_eq [OF assms(1)] Command_def split: option.splits)

theorem restartCmd_relocation_order_witness:
  "Options (sampleReq [(''post-path-modification'', BoolOpt True)] []) postPathModificationName
     = Some (BoolOpt True)
   \<and> StorePath (sampleExt lockedCfg) [] \<noteq> '''' \<and> OriginPath (sampleExt lockedCfg) [] \<noteq> ''''
   \<and> MoveFolder (sampleExt lockedCfg) [] = None
   \<and> WriteProperties (sampleExt lockedCfg) ([] @ [CallMoveFolder]) = None
   \<and> restartCmd (sampleExt lockedCfg) (sampleReq [(''post-path-modification'', BoolOpt True)] []) []
     = ([CallMoveFolder, CallWriteProperties,
         CallStart \<lparr>Path = ''/usr/local/bin/btfs'', Args = [''/usr/local/bin/btfs'', ''daemon''],
                    Env = Some [''HOME=/root'', ''BTFS_PATH=/data/new'']\<rparr>,
         CallExit 0], Exits 0)"
proof -
  let ?req = "sampleReq [(''post-path-modification'', BoolOpt True)] []"
  have opt: "Options ?req postPathModificationName = Some (BoolOpt True)"
    by (simp add: sample_defs)
  have sp: "StorePath (sampleExt lockedCfg) [] \<noteq> ''''"
    by (simp add: sample_defs)
  have op: "OriginPath (sampleExt lockedCfg) [] \<noteq> ''''"
    by (simp add: sample_defs)
  have mv: "MoveFolder (sampleExt lockedCfg) [] = None"
    by (simp add: sample_defs)
  have wr: "WriteProperties (sampleExt lockedCfg) ([] @ [CallMoveFolder]) = None"
    by (simp add: sample_defs)
  show ?thesis
    using restartCmd_relocation_order [OF opt sp op mv wr refl refl] opt sp op mv wr
    by (simp add: sampleExt_def)
qed

text \<open>
  C9. With the flag set and both paths non-empty: when the relocation fails its error is
  returned and the relocation is the only call; when the property-write fails its error is
  returned after these two calls; in both cases no child is started. In either mode, when
  the start of the child fails its error is returned and the trace ends with the start:
  the process does not exit. The exit is reached only after a start that succeeded.
\<close>

theorem restartCmd_failures:
  assumes "Options req postPathModificationName = Some (BoolOpt flag)"
    and "t2 = t @ [CallMoveFolder, CallWriteProperties]"
    and "moved = \<lparr>Path = Excutable e t, Args = [Excutable e t, ''daemon''],
                  Env = Some (Environ e t2 @ [''BTFS_PATH='' @ StorePath e t2])\<rparr>"
    and "plain = \<lparr>Path = Excutable e t, Args = [Excutable e t, ''daemon''], Env = None\<rparr>"
  shows "restartCmd e req t =
     (if flag \<and> StorePath e t \<noteq> '''' \<and> OriginPath e t \<noteq> '''' then
        (case MoveFolder e t of
           Some err \<Rightarrow> (t @ [CallMoveFolder], Returns (Some err))
         | None \<Rightarrow>
            (case WriteProperties e (t @ [CallMoveFolder]) of
               Some err \<Rightarrow> (t @ [CallMoveFolder, CallWriteProperties], Returns (Some err))
             | None \<Rightarrow>
                (case Start e t2 moved of
                   Some err \<Rightarrow> (t2 @ [CallStart moved], Returns (Some err))
                 | None \<Rightarrow> (t2 @ [CallStart moved, CallExit 0], Exits 0))))
      else
        (case Start e t plain of
           Some err \<Rightarrow> (t @ [CallStart plain], Returns (Some err))
         | None \<Rightarrow> (t @ [CallStart plain, CallExit 0], Exits 0)))"
  using assms(2-)
  by (simp add: restartCmd_eq [OF assms(1)] Command_def split: option.splits)

theorem restartCmd_failures_witness:
  "Options (sampleReq [(''post-path-modification'', BoolOpt True)] []) postPathModificationName
     = Some (BoolOpt True)
   \<and> restartCmd ((sampleExt lockedCfg)\<lparr>MoveFolder := (\<lambda>t. Some (ErrorString ''rename: cross-device link''))\<rparr>)
        (sampleReq [(''post-path-modification'', BoolOpt True)] []) []
     = ([CallMoveFolder], Returns (Some (ErrorString ''rename: cross-device link'')))
   \<and> restartCmd ((sampleExt lockedCfg)\<lparr>WriteProperties := (\<lambda>t. Some (ErrorString ''write: disk full''))\<rparr>)
        (sampleReq [(''post-path-modification'', BoolOpt True)] []) []
     = ([CallMoveFolder, CallWriteProperties], Returns (Some (ErrorString ''write: disk full'')))
   \<and> restartCmd ((sampleExt lockedCfg)\<lparr>Start := (\<lambda>t c. Some (ErrorString ''exec: not found''))\<rparr>)
        (sampleReq [(''post-path-modification'', BoolOpt True)] []) []
     = ([CallMoveFolder, CallWriteProperties,
         CallStart \<lparr>Path = ''/usr/local/bin/btfs'', Args = [''/usr/local/bin/btfs'', ''daemon''],
                    Env = Some [''HOME=/root'', ''BTFS_PATH=/data/new'']\<rparr>],
        Returns (Some (ErrorString ''exec: not found'')))"
proof -
  let ?req = "sampleReq [(''post-path-modification'', BoolOpt True)] []"
  have opt: "Options ?req postPathModificationName = Some (BoolOpt True)"
    by (simp add: sample_defs)
  show ?thesis
    using opt
      restartCmd_failures [OF opt refl refl refl,
        of "(sampleExt lockedCfg)\<lparr>MoveFolder := (\<lambda>t. Some (ErrorString ''rename: cross-device link''))\<rparr>" "[]"]
      restartCmd_failures [OF opt refl refl refl,
        of "(sampleExt lockedCfg)\<lparr>WriteProperties := (\<lambda>t. Some (ErrorString ''write: disk full''))\<rparr>" "[]"]
      restartCmd_failures [OF opt refl refl refl,
        of "(sampleExt lockedCfg)\<lparr>Start := (\<lambda>t c. Some (ErrorString ''exec: not found''))\<rparr>" "[]"]
    by (simp add: sampleExt_def)
qed

end
